theory Spec2Isabelle
  imports Complex_Main "HOL-Library.Log_Nat" "HOL-Library.Monad_Syntax"
begin

section \<open>JavaScript numbers\<close>

text \<open>
  Every number of \<^verbatim>\<open>server.js\<close> is an IEEE 754 binary64 value. A finite double is
  modelled by its exact rational value, next to the two infinities and NaN; the two
  zeros are identified (they are equal under \<^verbatim>\<open>===\<close>, \<^verbatim>\<open>Math.max(0, -0)\<close> is \<^verbatim>\<open>0\<close>
  and \<^verbatim>\<open>JSON.stringify\<close> prints both as \<^verbatim>\<open>0\<close>; the program never divides by a zero).
  Each arithmetic operation computes the exact rational result and rounds it to the
  nearest double, ties to even, overflowing to an infinity.
\<close>

datatype jsnum = Fin rat | PInf | NInf | NaN

definition ilog2 :: "rat \<Rightarrow> int" where
  \<comment> \<open>the binary exponent of a positive rational: \<open>2 powi ilog2 x \<le> x < 2 powi (ilog2 x + 1)\<close>\<close>
  "ilog2 x = (if 1 \<le> x then bitlen \<lfloor>x\<rfloor> - 1 else - bitlen (\<lceil>1 / x\<rceil> - 1))"

definition round_half_even :: "rat \<Rightarrow> int" where
  "round_half_even z =
     (let f = \<lfloor>z\<rfloor>; d = z - of_int f
      in if d < 1/2 then f else if 1/2 < d then f + 1 else if even f then f else f + 1)"

definition ulp_exp :: "rat \<Rightarrow> int" where
  \<comment> \<open>exponent of the unit in the last place: 53 significant bits, subnormals below \<open>2 powi - 1022\<close>\<close>
  "ulp_exp x = max (ilog2 \<bar>x\<bar> - 52) (- 1074)"

definition round_fin :: "rat \<Rightarrow> rat" where
  "round_fin x = (if x = 0 then 0
     else of_int (round_half_even (x / 2 powi ulp_exp x)) * 2 powi ulp_exp x)"

definition overflow_bound :: rat where
  \<comment> \<open>the largest double is \<open>2 ^ 1024 - 2 ^ 971\<close>; a rounding that reaches \<open>2 ^ 1024\<close> overflows\<close>
  "overflow_bound = 2 ^ 1024"

definition round_double :: "rat \<Rightarrow> jsnum" where
  "round_double x =
     (let r = round_fin x
      in if overflow_bound \<le> r then PInf else if r \<le> - overflow_bound then NInf else Fin r)"

definition lit :: "rat \<Rightarrow> jsnum" where
  \<comment> \<open>a numeric literal of the source text denotes the double nearest to its decimal value\<close>
  "lit q = round_double q"

fun fadd :: "jsnum \<Rightarrow> jsnum \<Rightarrow> jsnum" where
  "fadd (Fin a) (Fin b) = round_double (a + b)"
| "fadd NaN y = NaN"
| "fadd x NaN = NaN"
| "fadd PInf NInf = NaN"
| "fadd NInf PInf = NaN"
| "fadd PInf y = PInf"
| "fadd x PInf = PInf"
| "fadd NInf y = NInf"
| "fadd x NInf = NInf"

fun fsub :: "jsnum \<Rightarrow> jsnum \<Rightarrow> jsnum" where
  "fsub (Fin a) (Fin b) = round_double (a - b)"
| "fsub NaN y = NaN"
| "fsub x NaN = NaN"
| "fsub PInf PInf = NaN"
| "fsub NInf NInf = NaN"
| "fsub PInf y = PInf"
| "fsub x NInf = PInf"
| "fsub NInf y = NInf"
| "fsub x PInf = NInf"

fun fmul :: "jsnum \<Rightarrow> jsnum \<Rightarrow> jsnum" where
  "fmul (Fin a) (Fin b) = round_double (a * b)"
| "fmul NaN y = NaN"
| "fmul x NaN = NaN"
| "fmul PInf (Fin b) = (if b = 0 then NaN else if 0 < b then PInf else NInf)"
| "fmul NInf (Fin b) = (if b = 0 then NaN else if 0 < b then NInf else PInf)"
| "fmul (Fin a) PInf = (if a = 0 then NaN else if 0 < a then PInf else NInf)"
| "fmul (Fin a) NInf = (if a = 0 then NaN else if 0 < a then NInf else PInf)"
| "fmul PInf PInf = PInf"
| "fmul PInf NInf = NInf"
| "fmul NInf PInf = NInf"
| "fmul NInf NInf = PInf"

fun fdiv :: "jsnum \<Rightarrow> jsnum \<Rightarrow> jsnum" where
  "fdiv (Fin a) (Fin b) =
     (if b = 0 then (if a = 0 then NaN else if 0 < a then PInf else NInf)
      else round_double (a / b))"
| "fdiv NaN y = NaN"
| "fdiv x NaN = NaN"
| "fdiv (Fin a) y = Fin 0"
| "fdiv PInf (Fin b) = (if 0 \<le> b then PInf else NInf)"
| "fdiv NInf (Fin b) = (if 0 \<le> b then NInf else PInf)"
| "fdiv x y = NaN"

fun js_lt :: "jsnum \<Rightarrow> jsnum \<Rightarrow> bool" where
  "js_lt (Fin a) (Fin b) = (a < b)"
| "js_lt NaN y = False"
| "js_lt x NaN = False"
| "js_lt x NInf = False"
| "js_lt PInf y = False"
| "js_lt x y = True"

fun js_le :: "jsnum \<Rightarrow> jsnum \<Rightarrow> bool" where
  "js_le (Fin a) (Fin b) = (a \<le> b)"
| "js_le NaN y = False"
| "js_le x NaN = False"
| "js_le NInf y = True"
| "js_le x PInf = True"
| "js_le x y = False"

definition js_gt :: "jsnum \<Rightarrow> jsnum \<Rightarrow> bool" where
  "js_gt x y = js_lt y x"

fun is_finite :: "jsnum \<Rightarrow> bool" where
  "is_finite (Fin a) = True"
| "is_finite x = False"

fun math_max :: "jsnum \<Rightarrow> jsnum \<Rightarrow> jsnum" where
  "math_max NaN y = NaN"
| "math_max x NaN = NaN"
| "math_max x y = (if js_lt x y then y else x)"

fun math_abs :: "jsnum \<Rightarrow> jsnum" where
  "math_abs (Fin a) = Fin \<bar>a\<bar>"
| "math_abs NaN = NaN"
| "math_abs x = PInf"

fun math_floor :: "jsnum \<Rightarrow> jsnum" where
  "math_floor (Fin a) = Fin (of_int \<lfloor>a\<rfloor>)"
| "math_floor x = x"

fun math_round :: "jsnum \<Rightarrow> jsnum" where
  \<comment> \<open>\<^verbatim>\<open>Math.round\<close>: the nearest integer, a tie going up\<close>
  "math_round (Fin a) = Fin (of_int \<lfloor>a + 1/2\<rfloor>)"
| "math_round x = x"


section \<open>JavaScript values\<close>

text \<open>
  Request bodies and stored documents are JSON values. A string is its list of UTF-16
  code units; property names are the ASCII names of the source. An object is the list of
  its properties in source order; as in \<^verbatim>\<open>JSON.parse\<close>, the last duplicate of a key wins.
\<close>

type_synonym jsstring = "nat list"

definition js :: "string \<Rightarrow> jsstring" where
  "js s = map of_char s"

datatype jsval =
    JUndefined
  | JNull
  | JBool bool
  | JNumber jsnum
  | JString jsstring
  | JArray "jsval list"
  | JObject "(string \<times> jsval) list"

text \<open>
  The conversions between numbers and strings are built into the language and are not part
  of the repository; they are parameters of the model. What the language does around them
  is modelled: converting an array joins the conversions of its elements, and converting
  an object calls its \<^verbatim>\<open>toString\<close>. An object read from JSON that has a property of
  that name of its own holds a JSON value there, which is not callable, and the conversion
  throws a \<^verbatim>\<open>TypeError\<close>: the result \<open>None\<close>.
\<close>

record js_builtins =
  StringToNumber :: "jsstring \<Rightarrow> jsnum"
  NumberToString :: "jsnum \<Rightarrow> jsstring"

fun join_comma :: "jsstring list \<Rightarrow> jsstring" where
  "join_comma [] = []"
| "join_comma [s] = s"
| "join_comma (s # t # ss) = s @ js '','' @ join_comma (t # ss)"

fun to_string :: "js_builtins \<Rightarrow> jsval \<Rightarrow> jsstring option" where
  "to_string B JUndefined = Some (js ''undefined'')"
| "to_string B JNull = Some (js ''null'')"
| "to_string B (JBool b) = Some (if b then js ''true'' else js ''false'')"
| "to_string B (JNumber n) = Some (NumberToString B n)"
| "to_string B (JString s) = Some s"
| "to_string B (JArray xs) =
     map_option join_comma
       (those (map (\<lambda>x. if x = JUndefined \<or> x = JNull then Some [] else to_string B x) xs))"
| "to_string B (JObject kvs) =
     (if ''toString'' \<in> fst ` set kvs then None else Some (js ''[object Object]''))"

fun to_number :: "js_builtins \<Rightarrow> jsval \<Rightarrow> jsnum option" where
  "to_number B JUndefined = Some NaN"
| "to_number B JNull = Some (Fin 0)"
| "to_number B (JBool b) = Some (if b then Fin 1 else Fin 0)"
| "to_number B (JNumber n) = Some n"
| "to_number B (JString s) = Some (StringToNumber B s)"
| "to_number B (JArray xs) = map_option (StringToNumber B) (to_string B (JArray xs))"
| "to_number B (JObject kvs) = map_option (StringToNumber B) (to_string B (JObject kvs))"

fun truthy :: "jsval \<Rightarrow> bool" where
  "truthy JUndefined = False"
| "truthy JNull = False"
| "truthy (JBool b) = b"
| "truthy (JNumber n) = (n \<noteq> Fin 0 \<and> n \<noteq> NaN)"
| "truthy (JString s) = (s \<noteq> [])"
| "truthy v = True"

fun get_prop :: "jsval \<Rightarrow> string \<Rightarrow> jsval" where
  "get_prop (JObject kvs) k = (case map_of (rev kvs) k of Some v \<Rightarrow> v | None \<Rightarrow> JUndefined)"
| "get_prop v k = JUndefined"

definition or_empty :: "jsval \<Rightarrow> jsval" where
  \<comment> \<open>\<^verbatim>\<open>req.body || {}\<close>\<close>
  "or_empty body = (if truthy body then body else JObject [])"

definition is_js_space :: "nat \<Rightarrow> bool" where
  \<comment> \<open>white space and line terminators: what \<^verbatim>\<open>trim\<close> strips and \<^verbatim>\<open>\s\<close> matches\<close>
  "is_js_space c =
     (c \<in> {9, 10, 11, 12, 13, 32, 160, 5760, 8232, 8233, 8239, 8287, 12288, 65279}
      \<or> (8192 \<le> c \<and> c \<le> 8202))"

definition trim :: "jsstring \<Rightarrow> jsstring" where
  "trim s = rev (dropWhile is_js_space (rev (dropWhile is_js_space s)))"

section \<open>The simulation engine\<close>

definition automatedCostPerInvoice :: jsnum where
  "automatedCostPerInvoice = lit (20 / 100)"

definition errorRateAuto :: jsnum where
  "errorRateAuto = lit (1 / 1000)"

definition timeSavedPerInvoiceMinutes :: jsnum where
  "timeSavedPerInvoiceMinutes = lit 8"

definition minRoiBoostFactor :: jsnum where
  "minRoiBoostFactor = lit (11 / 10)"

definition toNumber :: "js_builtins \<Rightarrow> jsval \<Rightarrow> jsnum \<Rightarrow> jsnum option" where
  "toNumber B v fallback = do {
     n \<leftarrow> to_number B v;
     Some (if is_finite n then n else fallback) }"

definition round2 :: "jsnum \<Rightarrow> jsnum" where
  "round2 n = fdiv (math_round (fmul n (lit 100))) (lit 100)"

record sim_inputs =
  monthly_invoice_volume :: jsnum
  num_ap_staff :: jsnum
  avg_hours_per_invoice :: jsnum
  hourly_wage :: jsnum
  error_rate_manual :: jsnum
  error_cost :: jsnum
  time_horizon_months :: jsnum
  one_time_implementation_cost :: jsnum

record sim_constants =
  automated_cost_per_invoice :: jsnum
  error_rate_auto :: jsnum
  time_saved_per_invoice :: jsnum
  min_roi_boost_factor :: jsnum

record sim_results =
  labor_cost_manual :: jsnum
  auto_cost :: jsnum
  error_savings :: jsnum
  monthly_savings :: jsnum
  cumulative_savings :: jsnum
  net_savings :: jsnum
  payback_months :: "jsnum option"
  roi_percentage :: "jsnum option"

record simulation =
  inputs :: sim_inputs
  constants :: sim_constants
  results :: sim_results

text \<open>
  The first eight \<^verbatim>\<open>const\<close> lines of \<^verbatim>\<open>simulate\<close>: the normalised inputs. A conversion
  that throws ends the function.
\<close>

definition normalize :: "js_builtins \<Rightarrow> jsval \<Rightarrow> sim_inputs option" where
  "normalize B payload = do {
     monthlyInvoiceVolume \<leftarrow> toNumber B (get_prop payload ''monthly_invoice_volume'') (lit 0);
     numApStaff \<leftarrow> toNumber B (get_prop payload ''num_ap_staff'') (lit 0);
     avgHoursPerInvoice \<leftarrow> toNumber B (get_prop payload ''avg_hours_per_invoice'') (lit 0);
     hourlyWage \<leftarrow> toNumber B (get_prop payload ''hourly_wage'') (lit 0);
     errorRateManualPercent \<leftarrow> toNumber B (get_prop payload ''error_rate_manual'') (lit 0);
     errorCost \<leftarrow> toNumber B (get_prop payload ''error_cost'') (lit 0);
     timeHorizonMonths \<leftarrow> toNumber B (get_prop payload ''time_horizon_months'') (lit 36);
     oneTimeImplementationCost \<leftarrow>
       toNumber B (get_prop payload ''one_time_implementation_cost'') (lit 50000);
     Some \<lparr>
       monthly_invoice_volume = math_max (lit 0) monthlyInvoiceVolume,
       num_ap_staff = math_max (lit 0) numApStaff,
       avg_hours_per_invoice = math_max (lit 0) avgHoursPerInvoice,
       hourly_wage = math_max (lit 0) hourlyWage,
       error_rate_manual = math_max (lit 0) errorRateManualPercent,
       error_cost = math_max (lit 0) errorCost,
       time_horizon_months = math_max (lit 1) (math_floor timeHorizonMonths),
       one_time_implementation_cost = math_max (lit 0) oneTimeImplementationCost \<rparr> }"

text \<open>The derivation, one definition for each later \<^verbatim>\<open>const\<close> of \<^verbatim>\<open>simulate\<close>.\<close>

definition errorRateManual :: "sim_inputs \<Rightarrow> jsnum" where
  "errorRateManual i = fdiv (error_rate_manual i) (lit 100)"

definition laborCostManual :: "sim_inputs \<Rightarrow> jsnum" where
  "laborCostManual i =
     fmul (fmul (fmul (num_ap_staff i) (hourly_wage i)) (avg_hours_per_invoice i))
       (monthly_invoice_volume i)"

definition autoCost :: "sim_inputs \<Rightarrow> jsnum" where
  "autoCost i = fmul (monthly_invoice_volume i) automatedCostPerInvoice"

definition errorSavings :: "sim_inputs \<Rightarrow> jsnum" where
  "errorSavings i =
     fmul (fmul (fsub (errorRateManual i) errorRateAuto) (monthly_invoice_volume i))
       (error_cost i)"

definition monthlySavingsRaw :: "sim_inputs \<Rightarrow> jsnum" where
  "monthlySavingsRaw i = fsub (fadd (laborCostManual i) (errorSavings i)) (autoCost i)"

definition favorableBaseline :: "sim_inputs \<Rightarrow> jsnum" where
  "favorableBaseline i =
     math_max (monthlySavingsRaw i)
       (fadd (fmul (math_abs (monthlySavingsRaw i)) (lit (15 / 100))) (lit 100))"

definition monthlySavings :: "sim_inputs \<Rightarrow> jsnum" where
  "monthlySavings i =
     (let ms = fmul (favorableBaseline i) minRoiBoostFactor
      in if js_le ms (lit 0) then lit 100 else ms)"

definition cumulativeSavings :: "sim_inputs \<Rightarrow> jsnum" where
  "cumulativeSavings i = fmul (monthlySavings i) (time_horizon_months i)"

definition netSavings :: "sim_inputs \<Rightarrow> jsnum" where
  "netSavings i = fsub (cumulativeSavings i) (one_time_implementation_cost i)"

definition paybackMonths :: "sim_inputs \<Rightarrow> jsnum option" where
  "paybackMonths i =
     (if js_gt (monthlySavings i) (lit 0)
      then Some (fdiv (one_time_implementation_cost i) (monthlySavings i)) else None)"

definition roiPercentage :: "sim_inputs \<Rightarrow> jsnum option" where
  "roiPercentage i =
     (if js_gt (one_time_implementation_cost i) (lit 0)
      then Some (fmul (fdiv (netSavings i) (one_time_implementation_cost i)) (lit 100))
      else None)"

definition derive :: "sim_inputs \<Rightarrow> sim_results" where
  "derive i = \<lparr>
     labor_cost_manual = round2 (laborCostManual i),
     auto_cost = round2 (autoCost i),
     error_savings = round2 (errorSavings i),
     monthly_savings = round2 (monthlySavings i),
     cumulative_savings = round2 (cumulativeSavings i),
     net_savings = round2 (netSavings i),
     payback_months = (case paybackMonths i of None \<Rightarrow> None | Some v \<Rightarrow> Some (round2 v)),
     roi_percentage = (case roiPercentage i of None \<Rightarrow> None | Some v \<Rightarrow> Some (round2 v)) \<rparr>"

definition simulate :: "js_builtins \<Rightarrow> jsval \<Rightarrow> simulation option" where
  "simulate B payload = do {
     i \<leftarrow> normalize B payload;
     Some \<lparr> inputs = i,
            constants = \<lparr> automated_cost_per_invoice = automatedCostPerInvoice,
                          error_rate_auto = errorRateAuto,
                          time_saved_per_invoice = timeSavedPerInvoiceMinutes,
                          min_roi_boost_factor = minRoiBoostFactor \<rparr>,
            results = derive i \<rparr> }"

section \<open>The HTTP handlers\<close>

text \<open>
  A handler is a function from the request body (and, where it uses the collection, the
  store and what the environment supplies: the generated id, the clock, whether the
  database answers) to a status code and a response body. An exception thrown inside the
  \<^verbatim>\<open>try\<close> block of a handler is answered by its \<^verbatim>\<open>catch\<close> branch. The text of
  a stored JSON field is modelled by the value \<^verbatim>\<open>JSON.parse\<close> reads back from it:
  \<^verbatim>\<open>JSON.stringify\<close> prints a finite number so that it parses back to itself, and prints
  a non-finite one as \<^verbatim>\<open>null\<close>.
\<close>

datatype part = Inputs sim_inputs | Constants sim_constants | Results sim_results

definition sim_object :: "simulation \<Rightarrow> (string \<times> part) list" where
  \<comment> \<open>the object literal returned by \<^verbatim>\<open>simulate\<close>, property by property\<close>
  "sim_object sim =
     [(''inputs'', Inputs (inputs sim)), (''constants'', Constants (constants sim)),
      (''results'', Results (results sim))]"

definition delete_prop :: "string \<Rightarrow> (string \<times> 'a) list \<Rightarrow> (string \<times> 'a) list" where
  "delete_prop k obj = filter (\<lambda>kv. fst kv \<noteq> k) obj"

text \<open>
  The HTML of a report is modelled by what its template interpolates, expression by
  expression. Three expressions convert a number with \<^verbatim>\<open>String\<close>, which prints the shortest
  decimal that reads back as the same double: their text is modelled by that number (and
  the \<^verbatim>\<open>'-'\<close> printed for \<^verbatim>\<open>null\<close> by \<open>None\<close>). The seven others call
  \<^verbatim>\<open>toLocaleString()\<close>, which formats as \<^verbatim>\<open>Intl.NumberFormat\<close> does by default: every
  integer digit, grouped, and at most three fraction digits, the value rounded to the nearest
  such decimal, a tie going away from zero. Its text is modelled by the exact decimal number
  that the digits denote; grouping separators do not change it, and the sign of a zero is
  not modelled.
\<close>

datatype locale_text = Digits rat | InfinityText | MinusInfinityText | NaNText



record report_view =
  shown_monthly_savings :: locale_text
  shown_payback_months :: "jsnum option"
  shown_time_horizon_months :: jsnum
  shown_roi_percentage :: "jsnum option"
  shown_cumulative_savings :: locale_text
  shown_monthly_invoice_volume :: locale_text
  shown_labor_cost_manual :: locale_text
  shown_auto_cost :: locale_text
  shown_error_savings :: locale_text
  shown_one_time_implementation_cost :: locale_text

datatype body =
    SimBody "(string \<times> part) list"
  | ScenarioBody jsstring jsstring sim_inputs sim_results
  | ReportBody report_view
  | ErrorBody string
  | ErrorDetailsBody string

type_synonym response = "nat \<times> body"

record scenario_doc =
  doc_id :: jsstring
  doc_scenario_name :: jsstring
  inputs_json :: jsval
  results_json :: jsval
  created_at :: jsstring

record env =
  idGen :: jsstring
  now_iso :: jsstring
  db_up :: bool

definition json_num :: "jsnum \<Rightarrow> jsval" where
  "json_num n = (if is_finite n then JNumber n else JNull)"

definition json_opt :: "jsnum option \<Rightarrow> jsval" where
  "json_opt v = (case v of None \<Rightarrow> JNull | Some n \<Rightarrow> json_num n)"

definition json_inputs :: "sim_inputs \<Rightarrow> jsval" where
  "json_inputs i = JObject
     [(''monthly_invoice_volume'', json_num (monthly_invoice_volume i)),
      (''num_ap_staff'', json_num (num_ap_staff i)),
      (''avg_hours_per_invoice'', json_num (avg_hours_per_invoice i)),
      (''hourly_wage'', json_num (hourly_wage i)),
      (''error_rate_manual'', json_num (error_rate_manual i)),
      (''error_cost'', json_num (error_cost i)),
      (''time_horizon_months'', json_num (time_horizon_months i)),
      (''one_time_implementation_cost'', json_num (one_time_implementation_cost i))]"

definition json_results :: "sim_results \<Rightarrow> jsval" where
  "json_results r = JObject
     [(''labor_cost_manual'', json_num (labor_cost_manual r)),
      (''auto_cost'', json_num (auto_cost r)),
      (''error_savings'', json_num (error_savings r)),
      (''monthly_savings'', json_num (monthly_savings r)),
      (''cumulative_savings'', json_num (cumulative_savings r)),
      (''net_savings'', json_num (net_savings r)),
      (''payback_months'', json_opt (payback_months r)),
      (''roi_percentage'', json_opt (roi_percentage r))]"

definition insertOne :: "env \<Rightarrow> scenario_doc list \<Rightarrow> scenario_doc \<Rightarrow> scenario_doc list option" where
  \<comment> \<open>the collection has a unique index on \<^verbatim>\<open>id\<close>; \<open>None\<close> is a rejected promise\<close>
  "insertOne e store doc =
     (if db_up e \<and> doc_id doc \<notin> doc_id ` set store then Some (store @ [doc]) else None)"


definition post_simulate :: "js_builtins \<Rightarrow> jsval \<Rightarrow> response" where
  "post_simulate B req_body =
     (case simulate B (or_empty req_body) of
        None \<Rightarrow> (400, ErrorDetailsBody ''Invalid input'')
      | Some sim \<Rightarrow> (200, SimBody (delete_prop ''constants'' (sim_object sim))))"

definition post_scenarios ::
  "js_builtins \<Rightarrow> env \<Rightarrow> scenario_doc list \<Rightarrow> jsval \<Rightarrow> response \<times> scenario_doc list" where
  "post_scenarios B e store req_body =
     (let scenario_name = get_prop (or_empty req_body) ''scenario_name'';
          failed = ((500, ErrorDetailsBody ''Failed to save scenario''), store);
          rejected = ((400, ErrorBody ''scenario_name is required''), store)
      in if \<not> truthy scenario_name then rejected
         else case to_string B scenario_name of
           None \<Rightarrow> failed
         | Some name \<Rightarrow>
             if length (trim name) = 0 then rejected
             else case simulate B (or_empty req_body) of
               None \<Rightarrow> failed
             | Some sim \<Rightarrow>
                 let doc = \<lparr> doc_id = idGen e,
                             doc_scenario_name = trim name,
                             inputs_json = json_inputs (inputs sim),
                             results_json = json_results (results sim),
                             created_at = now_iso e \<rparr>
                 in case insertOne e store doc of
                      None \<Rightarrow> failed
                    | Some store' \<Rightarrow>
                        ((200, ScenarioBody (idGen e) (doc_scenario_name doc) (inputs sim)
                                 (results sim)),
                         store'))"





section \<open>Reference definitions\<close>

text \<open>
  The input normalisation in the words of the specification: each field is coerced to a
  number, a non-finite value falls back to the default of the field, every field is clamped
  to be at least 0, and the horizon is floored to an integer that is at least 1.
\<close>

definition coerce :: "js_builtins \<Rightarrow> jsval \<Rightarrow> rat \<Rightarrow> rat" where
  "coerce B v d = (case to_number B v of Some (Fin a) \<Rightarrow> a | _ \<Rightarrow> d)"

definition spec_normalize :: "js_builtins \<Rightarrow> jsval \<Rightarrow> sim_inputs" where
  "spec_normalize B payload = \<lparr>
     monthly_invoice_volume = Fin (max 0 (coerce B (get_prop payload ''monthly_invoice_volume'') 0)),
     num_ap_staff = Fin (max 0 (coerce B (get_prop payload ''num_ap_staff'') 0)),
     avg_hours_per_invoice = Fin (max 0 (coerce B (get_prop payload ''avg_hours_per_invoice'') 0)),
     hourly_wage = Fin (max 0 (coerce B (get_prop payload ''hourly_wage'') 0)),
     error_rate_manual = Fin (max 0 (coerce B (get_prop payload ''error_rate_manual'') 0)),
     error_cost = Fin (max 0 (coerce B (get_prop payload ''error_cost'') 0)),
     time_horizon_months =
       Fin (of_int (max 1 \<lfloor>coerce B (get_prop payload ''time_horizon_months'') 36\<rfloor>)),
     one_time_implementation_cost =
       Fin (max 0 (coerce B (get_prop payload ''one_time_implementation_cost'') 50000)) \<rparr>"

definition field_names :: "string list" where
  "field_names =
     [''monthly_invoice_volume'', ''num_ap_staff'', ''avg_hours_per_invoice'', ''hourly_wage'',
      ''error_rate_manual'', ''error_cost'', ''time_horizon_months'',
      ''one_time_implementation_cost'']"

text \<open>
  The JSON values whose conversion to a string or a number does not throw: every value but
  an object with a \<^verbatim>\<open>toString\<close> property of its own, and an array that holds one.
\<close>

fun convertible :: "jsval \<Rightarrow> bool" where
  "convertible (JArray xs) = list_all convertible xs"
| "convertible (JObject kvs) = (''toString'' \<notin> fst ` set kvs)"
| "convertible v = True"


text \<open>
  A fixed value for the conversion parameters, for evaluating the model on request bodies
  that hold numbers only, where no conversion between strings and numbers is called.
\<close>

definition no_conversions :: js_builtins where
  "no_conversions = \<lparr> StringToNumber = (\<lambda>s. NaN), NumberToString = (\<lambda>n. []) \<rparr>"

section \<open>Example request bodies\<close>

text \<open>Request bodies that hold numbers only, used to evaluate the model.\<close>

definition example_profitable :: jsval where
  \<comment> \<open>one clerk at 1 per hour, one hour per invoice, 1000 invoices a month\<close>
  "example_profitable =
     JObject [(''num_ap_staff'', JNumber (Fin 1)), (''hourly_wage'', JNumber (Fin 1)),
              (''avg_hours_per_invoice'', JNumber (Fin 1)),
              (''monthly_invoice_volume'', JNumber (Fin 1000))]"

definition example_all_zero :: jsval where
  \<comment> \<open>every field 0\<close>
  "example_all_zero =
     JObject [(''monthly_invoice_volume'', JNumber (Fin 0)), (''num_ap_staff'', JNumber (Fin 0)),
              (''avg_hours_per_invoice'', JNumber (Fin 0)), (''hourly_wage'', JNumber (Fin 0)),
              (''error_rate_manual'', JNumber (Fin 0)), (''error_cost'', JNumber (Fin 0)),
              (''time_horizon_months'', JNumber (Fin 0)),
              (''one_time_implementation_cost'', JNumber (Fin 0))]"

definition example_one_invoice :: jsval where
  \<comment> \<open>one invoice a month and nothing else: the raw monthly savings are -0.2\<close>
  "example_one_invoice =
     JObject [(''monthly_invoice_volume'', JNumber (Fin 1))]"

definition example_small_error :: jsval where
  \<comment> \<open>one invoice a month, an error cost of 1 and a manual error rate of 0\<close>
  "example_small_error =
     JObject [(''monthly_invoice_volume'', JNumber (Fin 1)), (''error_cost'', JNumber (Fin 1)),
              (''error_rate_manual'', JNumber (Fin 0))]"

definition example_large_error :: jsval where
  \<comment> \<open>1000 invoices a month, an error cost of 100 and a manual error rate of 0\<close>
  "example_large_error =
     JObject [(''monthly_invoice_volume'', JNumber (Fin 1000)),
              (''error_cost'', JNumber (Fin 100)), (''error_rate_manual'', JNumber (Fin 0))]"

definition example_overflow :: jsval where
  \<comment> \<open>two factors of the labour cost whose product exceeds the largest double; as JSON,
      \<^verbatim>\<open>{"num_ap_staff": 4.149515568880993e180, "hourly_wage": 4.149515568880993e180}\<close>\<close>
  "example_overflow =
     JObject [(''num_ap_staff'', JNumber (Fin (2 ^ 600))), (''hourly_wage'', JNumber (Fin (2 ^ 600)))]"

definition example_env :: env where
  "example_env = \<lparr> idGen = js ''A1b2C3d4E5'', now_iso = js ''2024-01-01T00:00:00.000Z'', db_up = True \<rparr>"



definition example_blank_request :: jsval where
  \<comment> \<open>a name of two spaces\<close>
  "example_blank_request =
     JObject [(''scenario_name'', JString (js ''  '')), (''monthly_invoice_volume'', JNumber (Fin 2000))]"



definition example_mixed :: jsval where
  \<comment> \<open>a negative field, a field that is not a number, a fractional horizon and an array\<close>
  "example_mixed =
     JObject [(''monthly_invoice_volume'', JNumber (Fin 2000)), (''hourly_wage'', JNumber (Fin (- 30))),
              (''error_cost'', JString (js ''abc'')), (''time_horizon_months'', JNumber (Fin (5 / 2))),
              (''one_time_implementation_cost'', JArray [JNumber (Fin 1), JNumber (Fin 2)])]"

definition example_percent_request :: jsval where
  \<comment> \<open>a manual error rate of 5 percent\<close>
  "example_percent_request = JObject [(''error_rate_manual'', JNumber (Fin 5))]"


section \<open>Rounding to a double\<close>

lemma two_powi_less_iff: "(2::rat) powi a < 2 powi b \<longleftrightarrow> a < b"
proof
  assume "(2::rat) powi a < 2 powi b"
  show "a < b"
  proof (rule ccontr)
    assume "\<not> a < b"
    then have "b \<le> a" by simp
    then have "(2::rat) powi b \<le> 2 powi a" by (rule power_int_increasing) simp
    with \<open>(2::rat) powi a < 2 powi b\<close> show False by simp
  qed
next
  assume "a < b"
  then show "(2::rat) powi a < 2 powi b" by (rule power_int_strict_increasing) simp
qed

lemma two_powi_le_iff: "(2::rat) powi a \<le> 2 powi b \<longleftrightarrow> a \<le> b"
  using two_powi_less_iff [of b a] by (simp add: not_less [symmetric])

lemma ilog2_bounds:
  assumes "0 < x"
  shows "2 powi ilog2 x \<le> x" and "x < 2 powi (ilog2 x + 1)"
proof -
  have "2 powi ilog2 x \<le> x \<and> x < 2 powi (ilog2 x + 1)"
  proof (cases "1 \<le> x")
    case True
    define n where "n = \<lfloor>x\<rfloor>"
    have n: "0 < n" using True by (simp add: n_def)
    have b: "1 \<le> bitlen n" using n bitlen_eq_zero_iff [of n] bitlen_nonneg [of n] by linarith
    have il: "ilog2 x = bitlen n - 1" using True by (simp add: ilog2_def n_def)
    from bitlen_bounds [OF n] have lo: "2 ^ nat (bitlen n - 1) \<le> n" and hi: "n < 2 ^ nat (bitlen n)"
      by simp_all
    have "(2::rat) powi (bitlen n - 1) = of_int (2 ^ nat (bitlen n - 1))"
      using b by (simp add: power_int_nonneg_exp)
    also have "\<dots> \<le> of_int n" using lo by (simp only: of_int_le_iff)
    also have "\<dots> \<le> x" by (simp add: n_def)
    finally have 1: "2 powi ilog2 x \<le> x" by (simp add: il)
    have "n + 1 \<le> 2 ^ nat (bitlen n)" using hi by simp
    then have "(of_int (n + 1) :: rat) \<le> of_int (2 ^ nat (bitlen n))" by (simp only: of_int_le_iff)
    moreover have "x < of_int (n + 1)" unfolding n_def by linarith
    ultimately have "x < of_int (2 ^ nat (bitlen n))" by linarith
    also have "\<dots> = 2 powi (bitlen n)" using b by (simp add: power_int_nonneg_exp)
    finally have "x < 2 powi (ilog2 x + 1)" by (simp add: il)
    with 1 show ?thesis by simp
  next
    case False
    define y where "y = 1 / x"
    define m where "m = \<lceil>y\<rceil> - 1"
    have y1: "1 < y" using False assms by (simp add: y_def)
    have m: "0 < m" using y1 unfolding m_def by linarith
    have my: "of_int m < y" "y \<le> of_int m + 1" unfolding m_def by linarith+
    have b: "1 \<le> bitlen m" using m bitlen_eq_zero_iff [of m] bitlen_nonneg [of m] by linarith
    have il: "ilog2 x = - bitlen m" using False by (simp add: ilog2_def m_def y_def)
    from bitlen_bounds [OF m] have lo: "2 ^ nat (bitlen m - 1) \<le> m" and hi: "m < 2 ^ nat (bitlen m)"
      by simp_all
    have x: "x = 1 / y" using assms by (simp add: y_def)
    have "m + 1 \<le> 2 ^ nat (bitlen m)" using hi by simp
    then have "(of_int (m + 1) :: rat) \<le> of_int (2 ^ nat (bitlen m))" by (simp only: of_int_le_iff)
    then have "y \<le> of_int (2 ^ nat (bitlen m))" using my by simp
    also have "\<dots> = 2 powi (bitlen m)" using b by (simp add: power_int_nonneg_exp)
    finally have "1 / 2 powi (bitlen m) \<le> 1 / y" using y1 by (simp add: frac_le)
    moreover have "2 powi ilog2 x = 1 / (2::rat) powi (bitlen m)"
      by (simp add: il power_int_minus_divide)
    ultimately have 1: "2 powi ilog2 x \<le> x" by (simp only: x)
    have "(2::rat) powi (bitlen m - 1) = of_int (2 ^ nat (bitlen m - 1))"
      using b by (simp add: power_int_nonneg_exp)
    also have "\<dots> \<le> of_int m" using lo by (simp only: of_int_le_iff)
    also have "\<dots> < y" by (rule my)
    finally have "1 / y < 1 / 2 powi (bitlen m - 1)" by (simp add: frac_less2)
    then have "x < 2 powi (- (bitlen m - 1))" by (simp only: x power_int_minus_divide)
    then have "x < 2 powi (ilog2 x + 1)" by (simp add: il)
    with 1 show ?thesis by simp
  qed
  then show "2 powi ilog2 x \<le> x" and "x < 2 powi (ilog2 x + 1)" by simp_all
qed

lemma ilog2_unique:
  assumes "0 < x" "2 powi k \<le> x" "x < 2 powi (k + 1)"
  shows "ilog2 x = k"
proof -
  have "(2::rat) powi k < 2 powi (ilog2 x + 1)"
    using assms(2) ilog2_bounds(2) [OF assms(1)] by linarith
  then have a: "k < ilog2 x + 1" by (simp only: two_powi_less_iff)
  have "(2::rat) powi ilog2 x < 2 powi (k + 1)"
    using assms(3) ilog2_bounds(1) [OF assms(1)] by linarith
  then have "ilog2 x < k + 1" by (simp only: two_powi_less_iff)
  with a show ?thesis by simp
qed

lemma ilog2_mono:
  assumes "0 < x" "x \<le> y"
  shows "ilog2 x \<le> ilog2 y"
proof -
  have "0 < y" using assms by simp
  have "(2::rat) powi ilog2 x < 2 powi (ilog2 y + 1)"
    using ilog2_bounds(1) [OF assms(1)] ilog2_bounds(2) [OF \<open>0 < y\<close>] assms(2) by linarith
  then have "ilog2 x < ilog2 y + 1" by (simp only: two_powi_less_iff)
  then show ?thesis by simp
qed

lemma rhe_range: "\<lfloor>z\<rfloor> \<le> round_half_even z" "round_half_even z \<le> \<lfloor>z\<rfloor> + 1"
  by (simp_all add: round_half_even_def Let_def)

lemma rhe_of_int: "round_half_even (of_int n) = n"
  by (simp add: round_half_even_def Let_def)

lemma rhe_mono:
  assumes "z \<le> w"
  shows "round_half_even z \<le> round_half_even w"
proof (cases "\<lfloor>z\<rfloor> = \<lfloor>w\<rfloor>")
  case True
  have "z - of_int \<lfloor>w\<rfloor> \<le> w - of_int \<lfloor>w\<rfloor>" using assms by simp
  then show ?thesis
    by (simp add: round_half_even_def Let_def True)
next
  case False
  have "\<lfloor>z\<rfloor> \<le> \<lfloor>w\<rfloor>" using assms by (rule floor_mono)
  with False have "\<lfloor>z\<rfloor> + 1 \<le> \<lfloor>w\<rfloor>" by simp
  with rhe_range(2) [of z] rhe_range(1) [of w] show ?thesis by linarith
qed

lemma rhe_minus: "round_half_even (- z) = - round_half_even z"
proof (cases "z = of_int \<lfloor>z\<rfloor>")
  case True
  then obtain n where "z = of_int n" ..
  then have "- z = of_int (- n)" by simp
  then show ?thesis unfolding \<open>z = of_int n\<close> by (simp only: rhe_of_int)
next
  case False
  define f where "f = \<lfloor>z\<rfloor>"
  have lt: "of_int f < z" "z < of_int f + 1" using False unfolding f_def by linarith+
  then have fl: "\<lfloor>- z\<rfloor> = - f - 1" by (simp add: floor_unique)
  show ?thesis
    using lt by (auto simp add: round_half_even_def Let_def fl f_def [symmetric])
qed

lemma rhe_near:
  assumes "\<bar>z - of_int m\<bar> < 1/2"
  shows "round_half_even z = m"
proof (cases "of_int m \<le> z")
  case True
  then have "\<lfloor>z\<rfloor> = m" using assms by (intro floor_unique) linarith+
  then show ?thesis using assms True by (simp add: round_half_even_def Let_def)
next
  case False
  then have f: "\<lfloor>z\<rfloor> = m - 1" using assms by (intro floor_unique; simp; linarith)
  have "\<not> z - of_int (m - 1) < 1/2" "1/2 < z - of_int (m - 1)"
    using assms False by (simp_all; linarith)+
  then show ?thesis unfolding round_half_even_def Let_def f by simp
qed


lemma ulp_exp_minus: "ulp_exp (- x) = ulp_exp x"
  by (simp add: ulp_exp_def)

lemma round_fin_minus: "round_fin (- x) = - round_fin x"
  by (simp add: round_fin_def ulp_exp_minus rhe_minus)

lemma round_fin_nonneg:
  assumes "0 \<le> x"
  shows "0 \<le> round_fin x"
proof -
  have "0 \<le> x / 2 powi ulp_exp x" using assms by simp
  then have "round_half_even 0 \<le> round_half_even (x / 2 powi ulp_exp x)" by (rule rhe_mono)
  then have "0 \<le> round_half_even (x / 2 powi ulp_exp x)"
    using rhe_of_int [of 0] by simp
  then show ?thesis by (simp add: round_fin_def)
qed

lemma ulp_exp_mono:
  assumes "0 < x" "x \<le> y"
  shows "ulp_exp x \<le> ulp_exp y"
  using ilog2_mono [of x y] assms by (simp add: ulp_exp_def)

lemma ulp_exp_bound:
  assumes "0 < x"
  shows "x < 2 powi (ulp_exp x + 53)"
proof -
  have "ilog2 x + 1 \<le> ulp_exp x + 53" using assms by (simp add: ulp_exp_def)
  then have "(2::rat) powi (ilog2 x + 1) \<le> 2 powi (ulp_exp x + 53)"
    by (simp only: two_powi_le_iff)
  with ilog2_bounds(2) [OF assms] show ?thesis by linarith
qed

lemma ulp_exp_normal:
  assumes "0 < y" "- 1074 < ulp_exp y"
  shows "2 powi (ulp_exp y + 52) \<le> y"
proof -
  have "ulp_exp y = ilog2 y - 52" using assms by (simp add: ulp_exp_def split: if_splits)
  then show ?thesis using ilog2_bounds(1) [OF assms(1)] by simp
qed

lemma round_fin_mono_pos:
  assumes "0 < x" "x \<le> y"
  shows "round_fin x \<le> round_fin y"
proof (cases "ulp_exp x = ulp_exp y")
  case True
  have "x / 2 powi ulp_exp y \<le> y / 2 powi ulp_exp y"
    using assms by (simp add: divide_right_mono)
  then have "round_half_even (x / 2 powi ulp_exp y) \<le> round_half_even (y / 2 powi ulp_exp y)"
    by (rule rhe_mono)
  then have "(of_int (round_half_even (x / 2 powi ulp_exp y)) :: rat) * 2 powi ulp_exp y
      \<le> of_int (round_half_even (y / 2 powi ulp_exp y)) * 2 powi ulp_exp y"
    by (simp add: mult_right_mono)
  then show ?thesis using assms by (simp add: round_fin_def True)
next
  case False
  define a where "a = ulp_exp x"
  define b where "b = ulp_exp y"
  have y: "0 < y" using assms by simp
  have ab: "a < b" using False ulp_exp_mono [OF assms] by (simp add: a_def b_def)
  have b: "- 1074 < b" using ab by (simp add: a_def ulp_exp_def)
  define B :: rat where "B = 2 powi (b + 52)"
  have By: "B \<le> y" unfolding B_def b_def using y b by (intro ulp_exp_normal) (simp_all add: b_def)
  have "x < 2 powi (a + 53)" unfolding a_def by (rule ulp_exp_bound [OF assms(1)])
  also have "\<dots> \<le> B" unfolding B_def using ab by (simp only: two_powi_le_iff)
  finally have xB: "x \<le> B" by simp
  \<comment> \<open>the binade boundary \<open>B\<close> is a multiple of both units\<close>
  have Ba: "B / 2 powi a = of_int (2 ^ nat (b + 52 - a))"
  proof -
    have "B / 2 powi a = (2::rat) powi (b + 52 - a)" by (simp add: B_def power_int_diff)
    also have "\<dots> = 2 ^ nat (b + 52 - a)" using ab by (simp add: power_int_nonneg_exp)
    finally show ?thesis by simp
  qed
  have Bb: "B / 2 powi b = of_int (2 ^ 52)"
  proof -
    have "(2::rat) powi (b + 52) = 2 powi b * 2 powi 52" by (rule power_int_add) simp
    then have "B / 2 powi b = (2::rat) powi 52" by (simp add: B_def)
    then show ?thesis by simp
  qed
  have "x / 2 powi a \<le> B / 2 powi a" using xB by (simp add: divide_right_mono)
  then have "round_half_even (x / 2 powi a) \<le> round_half_even (B / 2 powi a)" by (rule rhe_mono)
  then have "round_half_even (x / 2 powi a) \<le> 2 ^ nat (b + 52 - a)"
    by (simp only: Ba rhe_of_int)
  then have "(of_int (round_half_even (x / 2 powi a)) :: rat) \<le> of_int (2 ^ nat (b + 52 - a))"
    by (simp only: of_int_le_iff)
  then have "(of_int (round_half_even (x / 2 powi a)) :: rat) * 2 powi a \<le> (B / 2 powi a) * 2 powi a"
    by (simp only: Ba mult_right_mono zero_le_power_int zero_le_numeral)
  then have 1: "round_fin x \<le> B" using assms(1) by (simp add: round_fin_def a_def)
  have "B / 2 powi b \<le> y / 2 powi b" using By by (simp add: divide_right_mono)
  then have "round_half_even (B / 2 powi b) \<le> round_half_even (y / 2 powi b)" by (rule rhe_mono)
  then have "2 ^ 52 \<le> round_half_even (y / 2 powi b)"
    by (simp only: Bb rhe_of_int)
  then have "(of_int (2 ^ 52) :: rat) \<le> of_int (round_half_even (y / 2 powi b))"
    by (simp only: of_int_le_iff)
  then have "(B / 2 powi b) * 2 powi b \<le> (of_int (round_half_even (y / 2 powi b)) :: rat) * 2 powi b"
    by (simp only: Bb mult_right_mono zero_le_power_int zero_le_numeral)
  then have 2: "B \<le> round_fin y" using y by (simp add: round_fin_def b_def)
  from 1 2 show ?thesis by simp
qed

lemma round_fin_mono:
  assumes "x \<le> y"
  shows "round_fin x \<le> round_fin y"
proof -
  consider "0 < x" | "x \<le> 0" "0 \<le> y" | "y < 0" by linarith
  then show ?thesis
  proof cases
    case 1
    then show ?thesis using assms by (rule round_fin_mono_pos)
  next
    case 2
    have "0 \<le> round_fin (- x)" using 2 by (intro round_fin_nonneg) simp
    then have "round_fin x \<le> 0" by (simp add: round_fin_minus)
    moreover have "0 \<le> round_fin y" using 2 by (intro round_fin_nonneg)
    ultimately show ?thesis by simp
  next
    case 3
    have "round_fin (- y) \<le> round_fin (- x)" using 3 assms by (intro round_fin_mono_pos) simp_all
    then show ?thesis by (simp add: round_fin_minus)
  qed
qed

lemma round_double_mono:
  assumes "x \<le> y"
  shows "js_le (round_double x) (round_double y)"
  using round_fin_mono [OF assms] by (simp add: round_double_def Let_def)

text \<open>Evaluating a rounding: the unit exponent \<open>e\<close> and the integer \<open>m\<close> are a certificate.\<close>

lemma ulp_exp_eqI:
  assumes "x \<noteq> 0" "- 1074 \<le> e"
    and "2 powi (e + 52) \<le> \<bar>x\<bar> \<or> e = - 1074"
    and "\<bar>x\<bar> < 2 powi (e + 53)"
  shows "ulp_exp x = e"
proof -
  have pos: "0 < \<bar>x\<bar>" using assms(1) by simp
  have "(2::rat) powi ilog2 \<bar>x\<bar> < 2 powi (e + 53)"
    using ilog2_bounds(1) [OF pos] assms(4) by linarith
  then have up: "ilog2 \<bar>x\<bar> < e + 53" by (simp only: two_powi_less_iff)
  show ?thesis
  proof (cases "2 powi (e + 52) \<le> \<bar>x\<bar>")
    case True
    have "\<bar>x\<bar> < 2 powi (e + 52 + 1)" using assms(4) by (simp add: add.commute add.left_commute)
    with pos True have "ilog2 \<bar>x\<bar> = e + 52" by (rule ilog2_unique)
    then show ?thesis using assms(2) by (simp add: ulp_exp_def)
  next
    case False
    with assms(3) have "e = - 1074" by simp
    with up show ?thesis by (simp add: ulp_exp_def)
  qed
qed

lemma round_double_eval:
  assumes "x \<noteq> 0" "- 1074 \<le> e"
    and "2 powi (e + 52) \<le> \<bar>x\<bar> \<or> e = - 1074"
    and "\<bar>x\<bar> < 2 powi (e + 53)"
    and "\<bar>x / 2 powi e - of_int m\<bar> < 1/2"
    and "r = of_int m * 2 powi e"
    and "\<bar>r\<bar> < 2 ^ 64"
  shows "round_double x = Fin r"
proof -
  have "ulp_exp x = e" using assms(1-4) by (rule ulp_exp_eqI)
  moreover have "round_half_even (x / 2 powi e) = m" using assms(5) by (rule rhe_near)
  ultimately have "round_fin x = r" using assms(1,6) by (simp add: round_fin_def)
  moreover have "(2::rat) ^ 64 \<le> overflow_bound"
    unfolding overflow_bound_def by (rule power_increasing) simp_all
  ultimately show ?thesis using assms(7) by (auto simp add: round_double_def Let_def)
qed

lemma overflow_bound_pos: "0 < overflow_bound"
  by (simp add: overflow_bound_def)

lemma round_double_0: "round_double 0 = Fin 0"
  using overflow_bound_pos by (simp add: round_double_def round_fin_def not_le)

section \<open>Literals, order and monotone operations\<close>

lemma rd_1: "round_double 1 = Fin 1"
  by (rule round_double_eval [where e = "- 52" and m = "4503599627370496"]) simp_all

lemma rd_8: "round_double 8 = Fin 8"
  by (rule round_double_eval [where e = "- 49" and m = "4503599627370496"]) simp_all

lemma rd_36: "round_double 36 = Fin 36"
  by (rule round_double_eval [where e = "- 47" and m = "5066549580791808"]) simp_all

lemma rd_100: "round_double 100 = Fin 100"
  by (rule round_double_eval [where e = "- 46" and m = "7036874417766400"]) simp_all

lemma rd_50000: "round_double 50000 = Fin 50000"
  by (rule round_double_eval [where e = "- 37" and m = "6871947673600000"]) simp_all

lemma rd_1_5: "round_double (1 / 5) = Fin (3602879701896397 / 18014398509481984)"
  by (rule round_double_eval [where e = "- 55" and m = "7205759403792794"]) simp_all

lemma rd_1_1000: "round_double (1 / 1000) = Fin (1152921504606847 / 1152921504606846976)"
  by (rule round_double_eval [where e = "- 62" and m = "4611686018427388"]) simp_all

lemma rd_11_10: "round_double (11 / 10) = Fin (2476979795053773 / 2251799813685248)"
  by (rule round_double_eval [where e = "- 52" and m = "4953959590107546"]) simp_all

lemma rd_3_20: "round_double (3 / 20) = Fin (5404319552844595 / 36028797018963968)"
  by (rule round_double_eval [where e = "- 55" and m = "5404319552844595"]) simp_all

lemma rd_neg_c001: "round_double (- (1152921504606847 / 1152921504606846976)) = Fin (- (1152921504606847 / 1152921504606846976))"
  by (rule round_double_eval [where e = "- 62" and m = "- 4611686018427388"]) simp_all

lemma rd_100_c11: "round_double (61924494876344325 / 562949953421312) = Fin (7740561859543041 / 70368744177664)"
  by (rule round_double_eval [where e = "- 46" and m = "7740561859543041"]) simp_all




lemmas lit_simps = lit_def round_double_0 rd_1 rd_8 rd_36 rd_100 rd_50000 rd_1_5 rd_1_1000 rd_11_10 rd_3_20

lemma constants_eval:
  "automatedCostPerInvoice = Fin (3602879701896397 / 18014398509481984)"
  "errorRateAuto = Fin (1152921504606847 / 1152921504606846976)"
  "timeSavedPerInvoiceMinutes = Fin 8"
  "minRoiBoostFactor = Fin (2476979795053773 / 2251799813685248)"
  by (simp_all add: automatedCostPerInvoice_def errorRateAuto_def timeSavedPerInvoiceMinutes_def
      minRoiBoostFactor_def lit_simps)

lemma round_double_not_NaN [simp]: "round_double x \<noteq> NaN"
  by (simp add: round_double_def Let_def)

lemma round_double_lower:
  assumes "c \<le> x" "round_double c = Fin c'"
  shows "js_le (Fin c') (round_double x)"
  using round_double_mono [OF assms(1)] assms(2) by simp


lemma js_le_PInf [simp]: "js_le x PInf \<longleftrightarrow> x \<noteq> NaN"
  by (cases x) simp_all

lemma js_le_NInf [simp]: "js_le NInf x \<longleftrightarrow> x \<noteq> NaN"
  by (cases x) simp_all

lemma js_le_trans: "js_le a b \<Longrightarrow> js_le b c \<Longrightarrow> js_le a c"
  by (cases a; cases b; cases c) simp_all

lemma js_le_refl: "a \<noteq> NaN \<Longrightarrow> js_le a a"
  by (cases a) simp_all

lemma js_lt_imp_le: "js_lt a b \<Longrightarrow> js_le a b"
  by (cases a; cases b) simp_all

lemma js_lt_le_trans: "js_lt a b \<Longrightarrow> js_le b c \<Longrightarrow> js_lt a c"
  by (cases a; cases b; cases c) simp_all


lemma not_js_lt: "a \<noteq> NaN \<Longrightarrow> b \<noteq> NaN \<Longrightarrow> \<not> js_lt a b \<Longrightarrow> js_le b a"
  by (cases a; cases b) simp_all

lemma js_le_not_NaN: "js_le a b \<Longrightarrow> a \<noteq> NaN \<and> b \<noteq> NaN"
  by (cases a; cases b) simp_all

lemma js_lt_not_NaN: "js_lt a b \<Longrightarrow> a \<noteq> NaN \<and> b \<noteq> NaN"
  by (cases a; cases b) simp_all


text \<open>Operations with a finite second operand are monotone in the first.\<close>

lemma fadd_mono:
  assumes "js_le a b"
  shows "js_le (fadd a (Fin c)) (fadd b (Fin c))"
  using assms by (cases a; cases b) (simp_all add: round_double_mono)

lemma fmul_mono:
  assumes "js_le a b" "0 < c"
  shows "js_le (fmul a (Fin c)) (fmul b (Fin c))"
  using assms by (cases a; cases b) (simp_all add: round_double_mono)

lemma fdiv_mono:
  assumes "js_le a b" "0 < c"
  shows "js_le (fdiv a (Fin c)) (fdiv b (Fin c))"
  using assms by (cases a; cases b) (simp_all add: round_double_mono divide_right_mono)

lemma math_round_mono:
  assumes "js_le a b"
  shows "js_le (math_round a) (math_round b)"
  using assms by (cases a; cases b) (simp_all add: floor_mono)

lemma round2_mono:
  assumes "js_le a b"
  shows "js_le (round2 a) (round2 b)"
  unfolding round2_def lit_def rd_100
  by (intro fdiv_mono math_round_mono fmul_mono assms) simp_all

lemma math_abs_anti:
  assumes "js_lt a b" "js_lt b (Fin 0)"
  shows "js_le (math_abs b) (math_abs a)"
  using assms by (cases a; cases b) simp_all

section \<open>Facts about the engine\<close>


lemma floor_rat_numeral_div [simp]:
  "\<lfloor>(numeral a :: rat) / numeral b\<rfloor> = numeral a div numeral b"
  using floor_divide_of_int_eq [of "numeral a" "numeral b", where ?'a = rat] by simp

lemma floor_rat_neg_numeral_div [simp]:
  "\<lfloor>- ((numeral a :: rat) / numeral b)\<rfloor> = - numeral a div numeral b"
  using floor_divide_of_int_eq [of "- numeral a" "numeral b", where ?'a = rat] by simp

lemma floor_rat_one_div [simp]:
  "\<lfloor>(1 :: rat) / numeral b\<rfloor> = 1 div numeral b"
  using floor_divide_of_int_eq [of 1 "numeral b", where ?'a = rat] by simp

lemma floor_rat_neg_one_div [simp]:
  "\<lfloor>- ((1 :: rat) / numeral b)\<rfloor> = - 1 div numeral b"
  using floor_divide_of_int_eq [of "- 1" "numeral b", where ?'a = rat] by simp

lemma math_max_Fin [simp]: "math_max (Fin a) (Fin b) = Fin (max a b)"
  by (simp add: max_def)

text \<open>Which conversions throw.\<close>

lemma those_Some_iff: "(\<exists>ys. those xs = Some ys) \<longleftrightarrow> (\<forall>x \<in> set xs. \<exists>y. x = Some y)"
  by (induction xs) (auto split: option.splits)

lemma to_string_convertible: "to_string B v \<noteq> None \<longleftrightarrow> convertible v"
proof (induction v)
  case (JArray xs)
  have "to_string B (JArray xs) \<noteq> None
      \<longleftrightarrow> (\<forall>x \<in> set xs. x = JUndefined \<or> x = JNull \<or> to_string B x \<noteq> None)"
    by (auto simp add: those_Some_iff)
  also have "\<dots> \<longleftrightarrow> (\<forall>x \<in> set xs. convertible x)"
  proof (intro ball_cong refl)
    fix x assume "x \<in> set xs"
    then have "to_string B x \<noteq> None \<longleftrightarrow> convertible x" by (rule JArray)
    then show "(x = JUndefined \<or> x = JNull \<or> to_string B x \<noteq> None) \<longleftrightarrow> convertible x"
      by (cases x) simp_all
  qed
  finally show ?case by (simp add: list_all_iff)
qed simp_all

lemma to_number_convertible: "to_number B v \<noteq> None \<longleftrightarrow> convertible v"
  using to_string_convertible [of B v] by (cases v) simp_all

lemma toNumber_coerce:
  "toNumber B v (Fin d) = (if convertible v then Some (Fin (coerce B v d)) else None)"
proof (cases "to_number B v")
  case None
  then show ?thesis using to_number_convertible [of B v] by (simp add: toNumber_def)
next
  case (Some n)
  then show ?thesis
    using to_number_convertible [of B v] by (cases n) (simp_all add: toNumber_def coerce_def)
qed

lemma normalize_eq_spec:
  "normalize B payload =
     (if \<forall>k \<in> set field_names. convertible (get_prop payload k)
      then Some (spec_normalize B payload) else None)"
  by (simp add: normalize_def spec_normalize_def field_names_def lit_simps toNumber_coerce)

lemma simulate_eq_Some:
  "simulate B payload = Some sim \<longleftrightarrow>
     (\<forall>k \<in> set field_names. convertible (get_prop payload k))
     \<and> sim = \<lparr> inputs = spec_normalize B payload,
               constants = \<lparr> automated_cost_per_invoice = automatedCostPerInvoice,
                             error_rate_auto = errorRateAuto,
                             time_saved_per_invoice = timeSavedPerInvoiceMinutes,
                             min_roi_boost_factor = minRoiBoostFactor \<rparr>,
               results = derive (spec_normalize B payload) \<rparr>"
  by (auto simp add: simulate_def normalize_eq_spec)


lemma simulate_SomeD:
  assumes "simulate B payload = Some sim"
  shows "inputs sim = spec_normalize B payload" "results sim = derive (inputs sim)"
  using assms by (simp_all add: simulate_eq_Some)

lemma simulate_inputs:
  assumes "\<forall>k \<in> set field_names. convertible (get_prop payload k)"
  shows "map_option (f \<circ> inputs) (simulate B payload) = Some (f (spec_normalize B payload))"
  using assms by (simp add: simulate_def normalize_eq_spec)

lemma simulate_results:
  assumes "\<forall>k \<in> set field_names. convertible (get_prop payload k)"
  shows "map_option (f \<circ> results) (simulate B payload) = Some (f (derive (spec_normalize B payload)))"
  using assms by (simp add: simulate_def normalize_eq_spec)




lemma examples_convertible:
  "\<forall>k \<in> set field_names. convertible (get_prop example_profitable k)"
  "\<forall>k \<in> set field_names. convertible (get_prop example_all_zero k)"
  "\<forall>k \<in> set field_names. convertible (get_prop example_one_invoice k)"
  "\<forall>k \<in> set field_names. convertible (get_prop example_small_error k)"
  "\<forall>k \<in> set field_names. convertible (get_prop example_large_error k)"
  "\<forall>k \<in> set field_names. convertible (get_prop example_overflow k)"
  "\<forall>k \<in> set field_names. convertible (get_prop example_mixed k)"
  by (simp_all add: field_names_def example_profitable_def example_all_zero_def
      example_one_invoice_def example_small_error_def example_large_error_def
      example_overflow_def example_mixed_def)

lemma math_max_ge:
  assumes "a \<noteq> NaN" "js_le c b"
  shows "js_le c (math_max a b)"
proof (cases "js_lt a b")
  case True
  then show ?thesis using assms by (cases a; cases b) simp_all
next
  case False
  have "b \<noteq> NaN" using assms(2) by (simp add: js_le_not_NaN)
  with assms(1) False have "js_le b a" by (intro not_js_lt)
  with assms(2) have "js_le c a" by (rule js_le_trans)
  then show ?thesis using False assms(1) \<open>b \<noteq> NaN\<close> by (cases a; cases b) simp_all
qed

lemma math_max_left:
  assumes "js_lt b a"
  shows "math_max a b = a"
  using assms by (cases a; cases b) auto

lemma math_max_right:
  assumes "js_lt a b"
  shows "math_max a b = b"
  using assms by (cases a; cases b) auto

text \<open>The floor expression of the favourable clamp is at least 100.\<close>

lemma clamp_floor_ge:
  assumes "raw \<noteq> NaN"
  shows "js_le (Fin 100) (fadd (fmul (math_abs raw) (lit (15 / 100))) (lit 100))"
proof -
  have "js_le (Fin 0) (math_abs raw)" using assms by (cases raw) simp_all
  then have "js_le (fmul (Fin 0) (Fin (5404319552844595 / 36028797018963968)))
      (fmul (math_abs raw) (Fin (5404319552844595 / 36028797018963968)))"
    by (rule fmul_mono) simp
  then have "js_le (Fin 0) (fmul (math_abs raw) (lit (15 / 100)))"
    by (simp add: lit_simps)
  then have "js_le (fadd (Fin 0) (Fin 100)) (fadd (fmul (math_abs raw) (lit (15 / 100))) (Fin 100))"
    by (rule fadd_mono)
  then show ?thesis by (simp add: lit_simps)
qed

lemma favorableBaseline_ge:
  assumes "monthlySavingsRaw i \<noteq> NaN"
  shows "js_le (Fin 100) (favorableBaseline i)"
  unfolding favorableBaseline_def using assms by (intro math_max_ge clamp_floor_ge)

lemma favorableBaseline_NaN:
  assumes "monthlySavingsRaw i = NaN"
  shows "favorableBaseline i = NaN"
  by (simp add: favorableBaseline_def assms)

lemma boosted_ge:
  assumes "js_le (Fin 100) x"
  shows "js_le (Fin (7740561859543041 / 70368744177664)) (fmul x minRoiBoostFactor)"
proof -
  have "js_le (fmul (Fin 100) (Fin (2476979795053773 / 2251799813685248)))
      (fmul x (Fin (2476979795053773 / 2251799813685248)))"
    using assms by (rule fmul_mono) simp
  then show ?thesis by (simp add: constants_eval rd_100_c11)
qed

text \<open>The absolute-floor branch of \<^verbatim>\<open>simulate\<close> is never taken.\<close>

lemma boosted_not_le_0: "\<not> js_le (fmul (favorableBaseline i) minRoiBoostFactor) (lit 0)"
proof (cases "monthlySavingsRaw i = NaN")
  case True
  then show ?thesis by (simp add: favorableBaseline_NaN)
next
  case False
  then have "js_le (Fin (7740561859543041 / 70368744177664)) (fmul (favorableBaseline i) minRoiBoostFactor)"
    by (intro boosted_ge favorableBaseline_ge)
  then show ?thesis
    by (cases "fmul (favorableBaseline i) minRoiBoostFactor") (simp_all add: lit_simps)
qed

lemma monthlySavings_eq: "monthlySavings i = fmul (favorableBaseline i) minRoiBoostFactor"
  by (simp add: monthlySavings_def Let_def boosted_not_le_0)

lemmas engine_defs = spec_normalize_def coerce_def derive_def round2_def monthlySavingsRaw_def
  laborCostManual_def errorSavings_def errorRateManual_def autoCost_def favorableBaseline_def
  monthlySavings_eq cumulativeSavings_def netSavings_def paybackMonths_def roiPercentage_def
  js_gt_def constants_eval lit_simps

text \<open>Overflow: a rounding that reaches \<open>2 ^ 1024\<close> is an infinity.\<close>

lemma round_fin_overflow_bound: "round_fin overflow_bound = overflow_bound"
proof -
  have "ulp_exp overflow_bound = 972"
    by (rule ulp_exp_eqI) (simp_all add: overflow_bound_def)
  moreover have "overflow_bound / 2 powi 972 = of_int (2 ^ 52)"
    by (simp add: overflow_bound_def)
  moreover have "of_int (2 ^ 52) * 2 powi 972 = overflow_bound"
    by (simp add: overflow_bound_def)
  ultimately show ?thesis
    using overflow_bound_pos by (simp only: round_fin_def rhe_of_int) simp
qed

lemma round_double_overflow:
  assumes "overflow_bound \<le> x"
  shows "round_double x = PInf"
proof -
  have "round_fin overflow_bound \<le> round_fin x" using assms by (rule round_fin_mono)
  then show ?thesis by (simp add: round_double_def round_fin_overflow_bound)
qed

lemma overflow_product: "fmul (Fin (2 ^ 600)) (Fin (2 ^ 600)) = PInf"
proof -
  have "(2::rat) ^ 1024 \<le> 2 ^ 1200" by (rule power_increasing) simp_all
  then have "overflow_bound \<le> 2 ^ 600 * 2 ^ 600"
    by (simp only: overflow_bound_def power_add [symmetric]) simp
  then show ?thesis by (simp only: fmul.simps round_double_overflow)
qed

lemma overflow_raw: "monthlySavingsRaw (spec_normalize B example_overflow) = NaN"
proof -
  let ?i = "spec_normalize B example_overflow"
  have "num_ap_staff ?i = Fin (2 ^ 600)" "hourly_wage ?i = Fin (2 ^ 600)"
    "avg_hours_per_invoice ?i = Fin 0" "monthly_invoice_volume ?i = Fin 0"
    by (simp_all add: example_overflow_def spec_normalize_def coerce_def)
  then have "laborCostManual ?i = fmul (fmul (fmul (Fin (2 ^ 600)) (Fin (2 ^ 600))) (Fin 0)) (Fin 0)"
    by (simp only: laborCostManual_def)
  also have "\<dots> = fmul (fmul PInf (Fin 0)) (Fin 0)" by (simp only: overflow_product)
  also have "\<dots> = NaN" by simp
  finally show ?thesis by (simp add: monthlySavingsRaw_def)
qed

lemma overflow_monthlySavings: "monthlySavings (spec_normalize B example_overflow) = NaN"
  by (simp add: monthlySavings_eq favorableBaseline_def overflow_raw)


lemma trim_blank:
  assumes "\<forall>c \<in> set s. is_js_space c"
  shows "trim s = []"
proof -
  have h: "dropWhile is_js_space s = []" using assms by (induction s) simp_all
  show ?thesis unfolding trim_def h by simp
qed

section \<open>Facts about reports\<close>














lemma json_num_Fin [simp]: "json_num (Fin a) = JNumber (Fin a)"
  by (simp add: json_num_def)


section \<open>The claims\<close>

subsection \<open>Claim C1: the favourability floor and the boost\<close>

lemma rd_profitable_1: "round_double 1000 = Fin 1000"
  by (rule round_double_eval [where e = "- 43" and m = "8796093022208000"]) simp_all

lemma rd_profitable_2: "round_double (450359962737049625 / 2251799813685248) = Fin 200"
  by (rule round_double_eval [where e = "- 45" and m = "7036874417766400"]) simp_all

lemma rd_profitable_3: "round_double (- (144115188075855875 / 144115188075855872)) = Fin (- 1)"
  by (rule round_double_eval [where e = "- 52" and m = "- 4503599627370496"]) simp_all

lemma rd_profitable_4: "round_double 800 = Fin 800"
  by (rule round_double_eval [where e = "- 43" and m = "7036874417766400"]) simp_all

lemma rd_profitable_5: "round_double (135107988821114875 / 1125899906842624) = Fin 120"
  by (rule round_double_eval [where e = "- 46" and m = "8444249301319680"]) simp_all

lemma rd_profitable_6: "round_double 220 = Fin 220"
  by (rule round_double_eval [where e = "- 45" and m = "7740561859543040"]) simp_all

lemma rd_profitable_7: "round_double (61924494876344325 / 70368744177664) = Fin (7740561859543041 / 8796093022208)"
  by (rule round_double_eval [where e = "- 43" and m = "7740561859543041"]) simp_all


lemma profitable_raw: "monthlySavingsRaw (spec_normalize B example_profitable) = Fin 800"
  by (simp add: example_profitable_def engine_defs
      rd_profitable_1 rd_profitable_2 rd_neg_c001 rd_profitable_3 rd_profitable_4
      rd_profitable_5 rd_profitable_6 rd_profitable_7)

lemma profitable_floor:
  "fadd (fmul (math_abs (monthlySavingsRaw (spec_normalize B example_profitable))) (lit (15 / 100)))
     (lit 100) = Fin 220"
  by (simp add: profitable_raw lit_simps
      rd_profitable_1 rd_profitable_2 rd_neg_c001 rd_profitable_3 rd_profitable_4
      rd_profitable_5 rd_profitable_6 rd_profitable_7)

text \<open>
  Claim C1. Whenever \<^verbatim>\<open>simulate\<close> returns, it has computed the monthly savings as the
  favourable baseline times 1.1, where the baseline is the larger of the raw monthly savings
  and of their magnitude times 0.15 plus 100 (the absolute-floor branch never replaces the
  product), and it reports this value rounded to two decimals. Where the raw savings are
  positive and exceed that floor, they pass through unchanged: the monthly savings are the
  raw savings times 1.1.
\<close>

theorem monthly_savings_is_boosted_baseline:
  fixes B payload sim
  defines "i \<equiv> inputs sim"
  defines "raw \<equiv> monthlySavingsRaw i"
  assumes "simulate B payload = Some sim"
  shows "favorableBaseline i = math_max raw (fadd (fmul (math_abs raw) (lit (15 / 100))) (lit 100))
    \<and> monthlySavings i = fmul (favorableBaseline i) minRoiBoostFactor
    \<and> monthly_savings (results sim) = round2 (monthlySavings i)
    \<and> (js_gt raw (lit 0) \<and> js_gt raw (fadd (fmul (math_abs raw) (lit (15 / 100))) (lit 100))
        \<longrightarrow> favorableBaseline i = raw \<and> monthlySavings i = fmul raw minRoiBoostFactor)"
  unfolding i_def raw_def
  by (simp add: simulate_SomeD(2) [OF assms(3)] monthlySavings_eq derive_def js_gt_def)
     (simp add: favorableBaseline_def math_max_left)

theorem monthly_savings_is_boosted_baseline_witness:
  "\<exists>sim. simulate no_conversions example_profitable = Some sim
     \<and> js_gt (monthlySavingsRaw (inputs sim)) (lit 0)
     \<and> js_gt (monthlySavingsRaw (inputs sim))
          (fadd (fmul (math_abs (monthlySavingsRaw (inputs sim))) (lit (15 / 100))) (lit 100))
     \<and> monthlySavingsRaw (inputs sim) = Fin 800
     \<and> favorableBaseline (inputs sim) = monthlySavingsRaw (inputs sim)
     \<and> monthlySavings (inputs sim) = fmul (monthlySavingsRaw (inputs sim)) minRoiBoostFactor"
proof -
  obtain sim where s: "simulate no_conversions example_profitable = Some sim"
    by (simp add: simulate_eq_Some examples_convertible)
  have i: "inputs sim = spec_normalize no_conversions example_profitable"
    using s by (rule simulate_SomeD)
  have h: "js_gt (monthlySavingsRaw (inputs sim)) (lit 0)"
    "js_gt (monthlySavingsRaw (inputs sim))
       (fadd (fmul (math_abs (monthlySavingsRaw (inputs sim))) (lit (15 / 100))) (lit 100))"
    "monthlySavingsRaw (inputs sim) = Fin 800"
    unfolding i profitable_floor by (simp_all add: profitable_raw js_gt_def lit_simps)
  with monthly_savings_is_boosted_baseline [OF s] s show ?thesis by blast
qed

subsection \<open>Claim C2: the reported monthly savings are positive\<close>

lemma rd_zero_1: "round_double (193514046488576025 / 17592186044416) = Fin (6047313952768001 / 549755813888)"
  by (rule round_double_eval [where e = "- 39" and m = "6047313952768001"]) simp_all

lemma rd_zero_2: "round_double 110 = Fin 110"
  by (rule round_double_eval [where e = "- 46" and m = "7740561859543040"]) simp_all


lemma all_zero_monthly_savings:
  "monthly_savings (derive (spec_normalize B example_all_zero)) = Fin 110"
  by (simp add: example_all_zero_def engine_defs
      rd_neg_c001 rd_100_c11 rd_zero_1 rd_zero_2)

lemma overflow_monthly_savings:
  "monthly_savings (derive (spec_normalize B example_overflow)) = NaN"
  by (simp add: derive_def round2_def overflow_monthlySavings)

text \<open>
  Claim C2. For every input the reported \<^verbatim>\<open>monthly_savings\<close> is strictly greater than 0,
  and it is exactly 110 when every field is 0. The second part holds. The first fails:
  where a product of the labour cost overflows to \<^verbatim>\<open>Infinity\<close> and is then multiplied by a
  zero field, the raw savings are \<^verbatim>\<open>NaN\<close>; \<^verbatim>\<open>NaN <= 0\<close> is false, so the absolute-floor
  safeguard does not replace it, and the reported value is \<^verbatim>\<open>NaN\<close>, which is not greater
  than 0.
\<close>

theorem monthly_savings_NaN_on_overflow:
  "map_option (monthly_savings \<circ> results) (simulate B example_overflow) = Some NaN
   \<and> \<not> js_gt NaN (Fin 0)
   \<and> map_option (monthly_savings \<circ> results) (simulate B example_all_zero) = Some (Fin 110)"
  by (simp add: simulate_results examples_convertible all_zero_monthly_savings
      overflow_monthly_savings js_gt_def)

subsection \<open>Claim C3: input normalisation\<close>




subsection \<open>Claim C4: error savings can be negative\<close>

lemma round2_NaN [simp]: "round2 NaN = NaN"
  by (simp add: round2_def)






lemma rd_small_1: "round_double (3602879701896397 / 18014398509481984) = Fin (3602879701896397 / 18014398509481984)"
  by (rule round_double_eval [where e = "- 55" and m = "7205759403792794"]) simp_all

lemma rd_small_2: "round_double (- (231737222425976255 / 1152921504606846976)) = Fin (- (3620894100405879 / 18014398509481984))"
  by (rule round_double_eval [where e = "- 55" and m = "- 7241788200811758"]) simp_all


lemma rd_large_1: "round_double (- 100) = Fin (- 100)"
  by (rule round_double_eval [where e = "- 46" and m = "- 7036874417766400"]) simp_all

lemma rd_large_2: "round_double (- 300) = Fin (- 300)"
  by (rule round_double_eval [where e = "- 44" and m = "- 5277655813324800"]) simp_all









subsection \<open>Claim C5: payback and return on investment\<close>

text \<open>
  Claim C5. \<^verbatim>\<open>payback_months\<close> is the implementation cost divided by the monthly savings,
  rounded to two decimals, and is never null; \<^verbatim>\<open>roi_percentage\<close> is null exactly when the
  normalised implementation cost is 0. The payback is null on the overflowing input of claim
  C2: the monthly savings are \<^verbatim>\<open>NaN\<close> there, \<^verbatim>\<open>NaN > 0\<close> is false, and the defensive
  branch returns null although the implementation cost is the default 50000.
\<close>

theorem payback_null_on_overflow:
  "map_option (payback_months \<circ> results) (simulate B example_overflow) = Some None
   \<and> map_option (one_time_implementation_cost \<circ> inputs) (simulate B example_overflow)
       = Some (Fin 50000)"
proof -
  have "payback_months (derive (spec_normalize B example_overflow)) = None"
    by (simp add: derive_def paybackMonths_def overflow_monthlySavings js_gt_def lit_simps)
  moreover have "one_time_implementation_cost (spec_normalize B example_overflow) = Fin 50000"
    by (simp add: spec_normalize_def example_overflow_def coerce_def)
  ultimately show ?thesis by (simp add: simulate_inputs simulate_results examples_convertible)
qed

subsection \<open>Claim C6: the numbers of a report\<close>

























































subsection \<open>Claim C7: rounding is applied to the outputs only\<close>

lemma rd_invoice_1: "round_double (- (3602879701896397 / 18014398509481984)) = Fin (- (3602879701896397 / 18014398509481984))"
  by (rule round_double_eval [where e = "- 55" and m = "- 7205759403792794"]) simp_all

lemma rd_invoice_2: "round_double (19471113219505603967277331424215 / 649037107316853453566312041152512) = Fin (1080863910568919 / 36028797018963968)"
  by (rule round_double_eval [where e = "- 58" and m = "8646911284551352"]) simp_all

lemma rd_invoice_3: "round_double (3603960565806965719 / 36028797018963968) = Fin (3519492740045865 / 35184372088832)"
  by (rule round_double_eval [where e = "- 46" and m = "7038985480091730"]) simp_all

lemma rd_invoice_4: "round_double (8717712405932048661408161298645 / 79228162514264337593543950336) = Fin (967860503512613 / 8796093022208)"
  by (rule round_double_eval [where e = "- 46" and m = "7742884028100904"]) simp_all

lemma rd_invoice_5: "round_double (8710744531613517 / 2199023255552) = Fin (8710744531613517 / 2199023255552)"
  by (rule round_double_eval [where e = "- 41" and m = "8710744531613517"]) simp_all

lemma rd_invoice_6: "round_double (24196512587815325 / 2199023255552) = Fin (6049128146953831 / 549755813888)"
  by (rule round_double_eval [where e = "- 39" and m = "6049128146953831"]) simp_all

lemma rd_invoice_7: "round_double (11003 / 100) = Fin (3871336460934185 / 35184372088832)"
  by (rule round_double_eval [where e = "- 46" and m = "7742672921868370"]) simp_all

lemma rd_invoice_8: "round_double (217768613290337925 / 549755813888) = Fin (1701317291330765 / 4294967296)"
  by (rule round_double_eval [where e = "- 34" and m = "6805269165323060"]) simp_all

lemma rd_invoice_9: "round_double (396119 / 100) = Fin (8710748929660027 / 2199023255552)"
  by (rule round_double_eval [where e = "- 41" and m = "8710748929660027"]) simp_all

lemma rd_invoice_10: "round_double (34842028148407665 / 8796093022208) = Fin (2177626759275479 / 549755813888)"
  by (rule round_double_eval [where e = "- 41" and m = "8710507037101916"]) simp_all

lemma rd_invoice_11: "round_double (54440668981886975 / 137438953472) = Fin 396108"
  by (rule round_double_eval [where e = "- 34" and m = "6805083622735872"]) simp_all

lemma rd_invoice_12: "round_double (99027 / 25) = Fin (2177626759275479 / 549755813888)"
  by (rule round_double_eval [where e = "- 41" and m = "8710507037101916"]) simp_all


lemma one_invoice_monthly:
  "monthly_savings (derive (spec_normalize B example_one_invoice)) = Fin (3871336460934185 / 35184372088832)"
  by (simp add: example_one_invoice_def engine_defs
      rd_small_1 rd_neg_c001 rd_invoice_1 rd_invoice_2 rd_invoice_3 rd_invoice_4 rd_invoice_5
      rd_invoice_6 rd_invoice_7 rd_invoice_8 rd_invoice_9 rd_invoice_10 rd_invoice_11
      rd_invoice_12)

lemma one_invoice_cumulative:
  "cumulative_savings (derive (spec_normalize B example_one_invoice)) = Fin (8710748929660027 / 2199023255552)"
  by (simp add: example_one_invoice_def engine_defs
      rd_small_1 rd_neg_c001 rd_invoice_1 rd_invoice_2 rd_invoice_3 rd_invoice_4 rd_invoice_5
      rd_invoice_6 rd_invoice_7 rd_invoice_8 rd_invoice_9 rd_invoice_10 rd_invoice_11
      rd_invoice_12)

lemma one_invoice_rounded_first:
  "round2 (fmul (monthly_savings (derive (spec_normalize B example_one_invoice)))
     (time_horizon_months (spec_normalize B example_one_invoice))) = Fin (2177626759275479 / 549755813888)"
  by (simp add: example_one_invoice_def engine_defs
      rd_small_1 rd_neg_c001 rd_invoice_1 rd_invoice_2 rd_invoice_3 rd_invoice_4 rd_invoice_5
      rd_invoice_6 rd_invoice_7 rd_invoice_8 rd_invoice_9 rd_invoice_10 rd_invoice_11
      rd_invoice_12)

text \<open>
  Claim C7. Every field of the results is the two-decimal rounding of an unrounded
  intermediate value, and each later step of the derivation consumes the unrounded values:
  the cumulative savings are the rounding of the unrounded monthly savings times the horizon,
  not of the rounded monthly savings times the horizon, and likewise for the net savings, the
  payback and the return on investment. The two readings differ: for one invoice a month the
  reported cumulative savings are 3961.19, where the rounded monthly savings (110.03) times
  36 would give 3961.08.
\<close>

theorem results_round_unrounded_values:
  fixes B payload sim
  defines "i \<equiv> inputs sim"
  defines "r \<equiv> results sim"
  defines "cost \<equiv> one_time_implementation_cost i"
  assumes "simulate B payload = Some sim"
  shows "labor_cost_manual r = round2 (laborCostManual i)
    \<and> auto_cost r = round2 (autoCost i)
    \<and> error_savings r = round2 (errorSavings i)
    \<and> monthly_savings r = round2 (fmul (favorableBaseline i) minRoiBoostFactor)
    \<and> monthlySavings i = fmul (favorableBaseline i) minRoiBoostFactor
    \<and> cumulative_savings r = round2 (fmul (monthlySavings i) (time_horizon_months i))
    \<and> net_savings r = round2 (fsub (fmul (monthlySavings i) (time_horizon_months i)) cost)
    \<and> payback_months r =
        (if js_gt (monthlySavings i) (lit 0) then Some (round2 (fdiv cost (monthlySavings i)))
         else None)
    \<and> roi_percentage r =
        (if js_gt cost (lit 0)
         then Some (round2 (fmul
           (fdiv (fsub (fmul (monthlySavings i) (time_horizon_months i)) cost) cost) (lit 100)))
         else None)
    \<and> map_option (cumulative_savings \<circ> results) (simulate B example_one_invoice)
        = Some (Fin (8710748929660027 / 2199023255552))
    \<and> map_option (\<lambda>s. round2 (fmul (monthly_savings (results s)) (time_horizon_months (inputs s))))
          (simulate B example_one_invoice)
        = Some (Fin (2177626759275479 / 549755813888))"
proof -
  have "map_option (\<lambda>s. round2 (fmul (monthly_savings (results s)) (time_horizon_months (inputs s))))
      (simulate B example_one_invoice) = Some (Fin (2177626759275479 / 549755813888))"
    by (simp add: simulate_def normalize_eq_spec examples_convertible one_invoice_rounded_first)
  moreover have "map_option (cumulative_savings \<circ> results) (simulate B example_one_invoice)
      = Some (Fin (8710748929660027 / 2199023255552))"
    by (simp add: simulate_results examples_convertible one_invoice_cumulative)
  ultimately show ?thesis
    unfolding i_def r_def cost_def simulate_SomeD(2) [OF assms(4)]
    by (simp add: derive_def monthlySavings_eq cumulativeSavings_def netSavings_def
        paybackMonths_def roiPercentage_def)
qed

theorem results_round_unrounded_values_witness:
  "\<exists>sim. simulate no_conversions example_one_invoice = Some sim
     \<and> cumulative_savings (results sim)
         = round2 (fmul (monthlySavings (inputs sim)) (time_horizon_months (inputs sim)))
     \<and> cumulative_savings (results sim) = Fin (8710748929660027 / 2199023255552)
     \<and> monthly_savings (results sim) = Fin (3871336460934185 / 35184372088832)"
proof -
  obtain sim where s: "simulate no_conversions example_one_invoice = Some sim"
    by (simp add: simulate_eq_Some examples_convertible)
  have "cumulative_savings (results sim) = Fin (8710748929660027 / 2199023255552)" "monthly_savings (results sim) = Fin (3871336460934185 / 35184372088832)"
    by (simp_all add: simulate_SomeD [OF s] one_invoice_cumulative one_invoice_monthly)
  with results_round_unrounded_values [OF s] s show ?thesis by blast
qed

subsection \<open>Claim C8: a blank scenario name is rejected\<close>

text \<open>
  Claim C8. \<^verbatim>\<open>POST /scenarios\<close> with a missing, empty or whitespace-only \<^verbatim>\<open>scenario_name\<close>
  answers 400 with the reason \<^verbatim>\<open>scenario_name is required\<close>, and the store is unchanged.
\<close>

theorem blank_scenario_name_rejected:
  assumes "get_prop (or_empty req_body) ''scenario_name'' = JUndefined
    \<or> (\<exists>s. get_prop (or_empty req_body) ''scenario_name'' = JString s
          \<and> (\<forall>c \<in> set s. is_js_space c))"
  shows "post_scenarios B e store req_body = ((400, ErrorBody ''scenario_name is required''), store)"
  using assms by (auto simp add: post_scenarios_def Let_def trim_blank)

theorem blank_scenario_name_rejected_witness:
  "post_scenarios no_conversions example_env [] example_blank_request
   = ((400, ErrorBody ''scenario_name is required''), [])"
  by (rule blank_scenario_name_rejected)
     (simp add: example_blank_request_def or_empty_def js_def is_js_space_def)

subsection \<open>Claim C9: the simulate endpoint hides the constants\<close>

lemma rd_1_20: "round_double (1 / 20) = Fin (3602879701896397 / 72057594037927936)"
  by (rule round_double_eval [where e = "- 57" and m = "7205759403792794"]) simp_all

text \<open>
  Claim C9. The body of the response of \<^verbatim>\<open>POST /simulate\<close> to a request on which
  \<^verbatim>\<open>simulate\<close> returns has the two properties \<^verbatim>\<open>inputs\<close> and \<^verbatim>\<open>results\<close> and no
  \<^verbatim>\<open>constants\<close>, although the object returned by \<^verbatim>\<open>simulate\<close> has that property; the
  only other response is the 400 of the \<^verbatim>\<open>catch\<close> branch, so no response holds the
  constants. The echoed \<^verbatim>\<open>error_rate_manual\<close> is the percent value as entered (for a
  finite, non-negative entry), the division by 100 being internal.
\<close>

theorem simulate_response_hides_constants:
  assumes "simulate B (or_empty req_body) = Some sim"
  shows "post_simulate B req_body
      = (200, SimBody [(''inputs'', Inputs (inputs sim)), (''results'', Results (results sim))])
    \<and> (''constants'', Constants (constants sim)) \<in> set (sim_object sim)
    \<and> (to_number B (get_prop (or_empty req_body) ''error_rate_manual'') = Some (Fin v) \<and> 0 \<le> v
        \<longrightarrow> error_rate_manual (inputs sim) = Fin v
            \<and> errorRateManual (inputs sim) = fdiv (Fin v) (lit 100))
    \<and> (\<forall>other. post_simulate B other = (400, ErrorDetailsBody ''Invalid input'')
          \<or> (\<exists>s :: simulation. post_simulate B other
                = (200, SimBody [(''inputs'', Inputs (inputs s)), (''results'', Results (results s))])))"
proof -
  have "post_simulate B other = (400, ErrorDetailsBody ''Invalid input'')
      \<or> (\<exists>s :: simulation. post_simulate B other
            = (200, SimBody [(''inputs'', Inputs (inputs s)), (''results'', Results (results s))]))"
    for other
  proof (cases "simulate B (or_empty other)")
    case None
    then show ?thesis by (simp add: post_simulate_def)
  next
    case (Some a)
    then have "post_simulate B other
        = (200, SimBody [(''inputs'', Inputs (inputs a)), (''results'', Results (results a))])"
      by (simp add: post_simulate_def sim_object_def delete_prop_def)
    then show ?thesis by blast
  qed
  then show ?thesis
    using assms
    by (simp add: post_simulate_def sim_object_def delete_prop_def simulate_SomeD [OF assms]
        spec_normalize_def coerce_def errorRateManual_def)
qed

theorem simulate_response_hides_constants_witness:
  "\<exists>sim. simulate no_conversions (or_empty example_percent_request) = Some sim
     \<and> to_number no_conversions (get_prop (or_empty example_percent_request) ''error_rate_manual'')
         = Some (Fin 5)
     \<and> post_simulate no_conversions example_percent_request
         = (200, SimBody [(''inputs'', Inputs (inputs sim)), (''results'', Results (results sim))])
     \<and> error_rate_manual (inputs sim) = Fin 5
     \<and> errorRateManual (inputs sim) = Fin (3602879701896397 / 72057594037927936)"
proof -
  have c: "\<forall>k \<in> set field_names. convertible (get_prop (or_empty example_percent_request) k)"
    by (simp add: field_names_def or_empty_def example_percent_request_def)
  obtain sim where s: "simulate no_conversions (or_empty example_percent_request) = Some sim"
    using c by (simp add: simulate_eq_Some)
  have n: "to_number no_conversions (get_prop (or_empty example_percent_request) ''error_rate_manual'')
      = Some (Fin 5)"
    by (simp add: or_empty_def example_percent_request_def)
  have "fdiv (Fin 5) (lit 100) = Fin (3602879701896397 / 72057594037927936)"
    by (simp add: lit_simps rd_1_20)
  with simulate_response_hides_constants [OF s, of 5] s n show ?thesis by auto
qed

subsection \<open>Claim C10: the bias on losing scenarios\<close>

lemma losing_baseline:
  assumes "js_lt (monthlySavingsRaw i) (Fin 0)"
  shows "favorableBaseline i
    = fadd (fmul (math_abs (monthlySavingsRaw i)) (lit (15 / 100))) (lit 100)"
proof -
  have "monthlySavingsRaw i \<noteq> NaN" using assms by (simp add: js_lt_not_NaN)
  then have "js_le (Fin 100) (fadd (fmul (math_abs (monthlySavingsRaw i)) (lit (15 / 100))) (lit 100))"
    by (rule clamp_floor_ge)
  moreover have "js_lt (monthlySavingsRaw i) (Fin 100)"
    using assms by (cases "monthlySavingsRaw i") simp_all
  ultimately have "js_lt (monthlySavingsRaw i)
      (fadd (fmul (math_abs (monthlySavingsRaw i)) (lit (15 / 100))) (lit 100))"
    by (rule js_lt_le_trans [rotated])
  then show ?thesis unfolding favorableBaseline_def by (rule math_max_right)
qed

lemma losing_antimono:
  assumes "js_lt (monthlySavingsRaw i1) (monthlySavingsRaw i2)" "js_lt (monthlySavingsRaw i2) (Fin 0)"
  shows "js_le (round2 (monthlySavings i2)) (round2 (monthlySavings i1))"
proof -
  have 1: "js_lt (monthlySavingsRaw i1) (Fin 0)"
    using assms by (cases "monthlySavingsRaw i1"; cases "monthlySavingsRaw i2") simp_all
  have "js_le (math_abs (monthlySavingsRaw i2)) (math_abs (monthlySavingsRaw i1))"
    using assms by (rule math_abs_anti)
  then have "js_le (fmul (math_abs (monthlySavingsRaw i2)) (Fin (5404319552844595 / 36028797018963968)))
      (fmul (math_abs (monthlySavingsRaw i1)) (Fin (5404319552844595 / 36028797018963968)))"
    by (rule fmul_mono) simp
  then have "js_le
      (fadd (fmul (math_abs (monthlySavingsRaw i2)) (Fin (5404319552844595 / 36028797018963968))) (Fin 100))
      (fadd (fmul (math_abs (monthlySavingsRaw i1)) (Fin (5404319552844595 / 36028797018963968))) (Fin 100))"
    by (rule fadd_mono)
  then have "js_le (favorableBaseline i2) (favorableBaseline i1)"
    by (simp add: losing_baseline [OF 1] losing_baseline [OF assms(2)] lit_simps)
  then have "js_le (fmul (favorableBaseline i2) (Fin (2476979795053773 / 2251799813685248)))
      (fmul (favorableBaseline i1) (Fin (2476979795053773 / 2251799813685248)))"
    by (rule fmul_mono) simp
  then have "js_le (monthlySavings i2) (monthlySavings i1)"
    by (simp add: monthlySavings_eq constants_eval)
  then show ?thesis by (rule round2_mono)
qed

lemma monthlySavings_ge_110:
  assumes "monthlySavingsRaw i \<noteq> NaN"
  shows "js_le (Fin 110) (monthlySavings i)"
proof -
  have "js_le (Fin (7740561859543041 / 70368744177664)) (monthlySavings i)"
    unfolding monthlySavings_eq using assms by (intro boosted_ge favorableBaseline_ge)
  moreover have "js_le (Fin 110) (Fin (7740561859543041 / 70368744177664))" by simp
  ultimately show ?thesis by (rule js_le_trans [rotated])
qed

lemma rd_small_ms_1: "round_double (19568468785603132068178511374005 / 649037107316853453566312041152512) = Fin (8690145840974109 / 288230376151711744)"
  by (rule round_double_eval [where e = "- 58" and m = "8690145840974109"]) simp_all

lemma rd_small_ms_2: "round_double (28831727761012148509 / 288230376151711744) = Fin (7038996035403357 / 70368744177664)"
  by (rule round_double_eval [where e = "- 46" and m = "7038996035403357"]) simp_all

lemma rd_small_ms_3: "round_double (17435450957157727897983559715961 / 158456325028528675187087900672) = Fin (7742895638943693 / 70368744177664)"
  by (rule round_double_eval [where e = "- 46" and m = "7742895638943693"]) simp_all

lemma rd_small_ms_4: "round_double (193572390973592325 / 17592186044416) = Fin (756142152240595 / 68719476736)"
  by (rule round_double_eval [where e = "- 39" and m = "6049137217924760"]) simp_all

lemma rd_large_ms_1: "round_double (405323966463344625 / 9007199254740992) = Fin 45"
  by (rule round_double_eval [where e = "- 47" and m = "6333186975989760"]) simp_all

lemma rd_large_ms_2: "round_double 145 = Fin 145"
  by (rule round_double_eval [where e = "- 45" and m = "5101733952880640"]) simp_all

lemma rd_large_ms_3: "round_double (359162070282797085 / 2251799813685248) = Fin (319 / 2)"
  by (rule round_double_eval [where e = "- 45" and m = "5611907348168704"]) simp_all

lemma rd_large_ms_4: "round_double 15950 = Fin 15950"
  by (rule round_double_eval [where e = "- 39" and m = "8768605231513600"]) simp_all

lemma rd_large_ms_5: "round_double (319 / 2) = Fin (319 / 2)"
  by (rule round_double_eval [where e = "- 45" and m = "5611907348168704"]) simp_all


lemma small_error_monthly:
  "monthlySavingsRaw (spec_normalize B example_small_error) = Fin (- (3620894100405879 / 18014398509481984))"
  "monthly_savings (derive (spec_normalize B example_small_error)) = Fin (3871336460934185 / 35184372088832)"
  by (simp_all add: example_small_error_def engine_defs
      rd_small_1 rd_neg_c001 rd_small_2 rd_small_ms_1 rd_small_ms_2 rd_small_ms_3 rd_small_ms_4
      rd_invoice_7)

lemma one_invoice_raw:
  "monthlySavingsRaw (spec_normalize B example_one_invoice) = Fin (- (3602879701896397 / 18014398509481984))"
  by (simp add: example_one_invoice_def engine_defs
      rd_small_1 rd_neg_c001 rd_invoice_1 rd_invoice_2 rd_invoice_3 rd_invoice_4 rd_invoice_6
      rd_invoice_7)

lemma large_error_monthly:
  "monthlySavingsRaw (spec_normalize B example_large_error) = Fin (- 300)"
  "monthly_savings (derive (spec_normalize B example_large_error)) = Fin (319 / 2)"
  by (simp_all add: example_large_error_def engine_defs
      rd_profitable_2 rd_neg_c001 rd_profitable_3 rd_large_1 rd_large_2 rd_large_ms_1
      rd_large_ms_2 rd_large_ms_3 rd_large_ms_4 rd_large_ms_5)

text \<open>
  Claim C10, as stated: for two inputs whose raw monthly savings satisfy r1 < r2 < 0, the
  reported monthly savings of the first are strictly greater than those of the second. This
  fails where the two results round to the same cent: one invoice a month with an error cost
  of 1 has raw savings of about -0.201, one invoice a month without error cost has -0.2, and
  both report 110.03.
\<close>

theorem losing_not_strictly_antimonotone_counterexample:
  "map_option (monthlySavingsRaw \<circ> inputs) (simulate no_conversions example_small_error)
     = Some (Fin (- (3620894100405879 / 18014398509481984)))
   \<and> map_option (monthlySavingsRaw \<circ> inputs) (simulate no_conversions example_one_invoice)
     = Some (Fin (- (3602879701896397 / 18014398509481984)))
   \<and> js_lt (Fin (- (3620894100405879 / 18014398509481984))) (Fin (- (3602879701896397 / 18014398509481984)))
   \<and> js_lt (Fin (- (3602879701896397 / 18014398509481984))) (Fin 0)
   \<and> map_option (monthly_savings \<circ> results) (simulate no_conversions example_small_error)
     = Some (Fin (3871336460934185 / 35184372088832))
   \<and> map_option (monthly_savings \<circ> results) (simulate no_conversions example_one_invoice)
     = Some (Fin (3871336460934185 / 35184372088832))
   \<and> \<not> js_gt (Fin (3871336460934185 / 35184372088832)) (Fin (3871336460934185 / 35184372088832))"
  by (simp add: simulate_inputs simulate_results examples_convertible small_error_monthly
      one_invoice_raw one_invoice_monthly js_gt_def)

text \<open>
  Claim C10, amended. For two inputs on which \<^verbatim>\<open>simulate\<close> returns and whose raw monthly
  savings satisfy r1 < r2 < 0, the reported monthly savings of the first are greater than or
  equal to those of the second. Whenever the raw monthly savings are a number, the monthly
  savings before rounding are at least 110; and the product of the baseline and the boost is
  never \<^verbatim>\<open><= 0\<close>, so the absolute-floor branch that would force 100 is unreachable.
\<close>

theorem losing_weakly_antimonotone:
  fixes B p1 p2 s1 s2
  defines "i1 \<equiv> inputs s1"
  defines "i2 \<equiv> inputs s2"
  assumes "simulate B p1 = Some s1" "simulate B p2 = Some s2"
  shows "(js_lt (monthlySavingsRaw i1) (monthlySavingsRaw i2) \<and> js_lt (monthlySavingsRaw i2) (Fin 0)
        \<longrightarrow> js_le (monthly_savings (results s2)) (monthly_savings (results s1)))
    \<and> (monthlySavingsRaw i1 \<noteq> NaN \<longrightarrow> js_le (Fin 110) (monthlySavings i1))
    \<and> \<not> js_le (fmul (favorableBaseline i1) minRoiBoostFactor) (lit 0)"
  unfolding i1_def i2_def
  by (simp add: simulate_SomeD(2) [OF assms(3)] simulate_SomeD(2) [OF assms(4)] derive_def
      losing_antimono monthlySavings_ge_110 boosted_not_le_0)

theorem losing_weakly_antimonotone_witness:
  "\<exists>s1 s2. simulate no_conversions example_large_error = Some s1
     \<and> simulate no_conversions example_one_invoice = Some s2
     \<and> js_lt (monthlySavingsRaw (inputs s1)) (monthlySavingsRaw (inputs s2))
     \<and> js_lt (monthlySavingsRaw (inputs s2)) (Fin 0)
     \<and> monthlySavingsRaw (inputs s1) \<noteq> NaN
     \<and> js_le (monthly_savings (results s2)) (monthly_savings (results s1))
     \<and> js_le (Fin 110) (monthlySavings (inputs s1))"
proof -
  obtain s1 where 1: "simulate no_conversions example_large_error = Some s1"
    by (simp add: simulate_eq_Some examples_convertible)
  obtain s2 where 2: "simulate no_conversions example_one_invoice = Some s2"
    by (simp add: simulate_eq_Some examples_convertible)
  have "js_lt (monthlySavingsRaw (inputs s1)) (monthlySavingsRaw (inputs s2))"
    and "js_lt (monthlySavingsRaw (inputs s2)) (Fin 0)"
    and "monthlySavingsRaw (inputs s1) \<noteq> NaN"
    by (simp_all add: simulate_SomeD [OF 1] simulate_SomeD [OF 2] large_error_monthly one_invoice_raw)
  with losing_weakly_antimonotone [OF 1 2] 1 2 show ?thesis by blast
qed

end
